theory Spec2Isabelle
  imports Main
begin

section \<open>Data model\<close>

text \<open>
  The voice calculator is one React component (\<open>VoiceCalculator\<close>) whose state lives in
  \<open>useState\<close> cells and \<open>useRef\<close> cells, mutated by callbacks of a single event
  loop. The embedding threads that state through every callback explicitly and returns
  the calls made on the platform (console, audio device, transport) as a list of effects.
  A cell that is set with a value is modelled by the value last given to its setter:
  that is what the next render shows, whenever React runs it. \<open>setHistory\<close> is also
  called with an updater function, which React runs at the next render; such updates are
  queued in the state and applied by \<open>render\<close> below.

  JavaScript strings are modelled as character lists: the callbacks only concatenate
  strings and compare them with ASCII literals.
\<close>

datatype ConnectionState = DISCONNECTED | CONNECTING | CONNECTED | ERROR

text \<open>
  An \<open>AudioBufferSourceNode\<close> as the scheduler uses it: the duration of the buffer put
  on it and the time passed to its \<open>start\<close>.
\<close>

record 't source_node =
  node_duration :: 't
  node_start :: 't

text \<open>
  What \<open>setHistory\<close> is called with: the updater of the \<open>displayResult\<close> branch, which
  holds the \<open>text\<close> it captured, or the empty array.
\<close>

datatype history_update = PrependResult "string option" | ClearHistory

text \<open>
  The component's state. The first five fields are the \<open>useState\<close> cells, followed by
  the history updates not yet applied; the others are the
  \<open>useRef\<close> cells under their source names. Device and transport objects are handles
  (natural numbers); a \<open>null\<close> reference is \<open>None\<close>. \<open>displayText\<close> receives the
  \<open>text\<close> argument of a tool call unchecked, so it can hold \<open>undefined\<close> (\<open>None\<close>).
  \<open>sourcesRef\<close> is a JavaScript \<open>Set\<close> of node objects, kept in insertion order.
  The type \<open>'t\<close> is the type of audio-clock values: the scheduler only compares
  and adds them.
\<close>

record 't app_state =
  connectionState :: ConnectionState
  displayText :: "string option"
  expression :: string
  history :: "string list"
  analyser :: "nat option"
  historyUpdates :: "history_update list"
  inputAudioContextRef :: "nat option"
  outputAudioContextRef :: "nat option"
  streamRef :: "nat option"
  sessionRef :: "nat option"
  nextStartTimeRef :: 't
  sourcesRef :: "'t source_node list"
  currentInputRef :: string
  isResultFinalRef :: bool

text \<open>The initial text of the result display, as UTF-8 bytes (seven Japanese characters).\<close>

definition initial_displayText :: string where
  "initial_displayText =
     [CHR 0xE9, CHR 0x9F, CHR 0xB3, CHR 0xE5, CHR 0xA3, CHR 0xB0, CHR 0xE5,
      CHR 0x85, CHR 0xA5, CHR 0xE5, CHR 0x8A, CHR 0x9B, CHR 0xE3, CHR 0x82,
      CHR 0x92, CHR 0xE9, CHR 0x96, CHR 0x8B, CHR 0xE5, CHR 0xA7, CHR 0x8B]"

definition initial_state :: "('t::zero) app_state" where
  "initial_state =
     \<lparr> connectionState = DISCONNECTED,
       displayText = Some initial_displayText,
       expression = [],
       history = [],
       analyser = None,
       historyUpdates = [],
       inputAudioContextRef = None,
       outputAudioContextRef = None,
       streamRef = None,
       sessionRef = None,
       nextStartTimeRef = 0,
       sourcesRef = [],
       currentInputRef = [],
       isResultFinalRef = False \<rparr>"

subsection \<open>Inbound messages\<close>

text \<open>
  A \<open>LiveServerMessage\<close> as \<open>onmessage\<close> reads it:
  \<open>serverContent?.inputTranscription\<close> (an object with an optional \<open>text\<close>),
  \<open>toolCall\<close> (its \<open>functionCalls\<close>), and
  \<open>serverContent?.modelTurn?.parts?.[0]?.inlineData?.data\<close> (base64 audio), each
  \<open>None\<close> when a link of the optional chain is missing. A tool-call message carries
  its array of calls, and a function call carries an id, a name and an argument map (the
  handler reads all three without a check); the tool declarations of the component give
  \<open>displayResult\<close> the one string property \<open>text\<close> and \<open>resetApp\<close> none, so
  argument values are strings and a missing key reads as \<open>undefined\<close>.
\<close>

record Transcription =
  tr_text :: "string option"

record FunctionCall =
  fc_id :: string
  fc_name :: string
  fc_args :: "string \<rightharpoonup> string"

record LiveServerMessage =
  inputTranscription :: "Transcription option"
  toolCall :: "FunctionCall list option"
  inlineData :: "string option"

subsection \<open>Outbound effects\<close>

text \<open>One entry of the \<open>functionResponses\<close> array: \<open>{id, name, response: {result}}\<close>.\<close>

record FunctionResponse =
  fr_id :: string
  fr_name :: string
  fr_result :: string

text \<open>
  The platform calls a callback makes, in program order. \<open>ThenSendToolResponse\<close> and
  \<open>ThenCloseSession\<close> are the two callbacks queued on the session promise with
  \<open>then\<close>; \<open>CloseSession\<close> is the call \<open>session.close()\<close> the second one makes
  when it runs.
\<close>

datatype 't effect =
    ConsoleLog string
  | ConsoleWarn string
  | ConsoleError string
  | StopTracks nat
  | CloseContext nat
  | ThenCloseSession nat
  | CloseSession nat
  | StopSource "'t source_node"
  | StartSource "'t source_node"
  | ThenSendToolResponse "FunctionResponse list"

text \<open>How a callback ends: it returns (an async one fulfils), or it throws (rejects).\<close>

datatype outcome = Normal | Abrupt

section \<open>The message handler\<close>

subsection \<open>Transcription accumulator\<close>

text \<open>The two statement groups of part 1 of \<open>onmessage\<close>: the reset and the append.\<close>

definition clear_formula :: "'t app_state \<Rightarrow> 't app_state" where
  "clear_formula s = s\<lparr> currentInputRef := [], expression := [], isResultFinalRef := False \<rparr>"

definition append_fragment :: "string \<Rightarrow> 't app_state \<Rightarrow> 't app_state" where
  "append_fragment t s =
     s\<lparr> currentInputRef := currentInputRef s @ t, expression := currentInputRef s @ t \<rparr>"

text \<open>The guard \<open>inputTr && inputTr.text\<close>: an empty string is falsy.\<close>

definition handle_transcription :: "LiveServerMessage \<Rightarrow> 't app_state \<Rightarrow> 't app_state" where
  "handle_transcription m s =
     (case inputTranscription m of
        None \<Rightarrow> s
      | Some inputTr \<Rightarrow>
          (case tr_text inputTr of
             None \<Rightarrow> s
           | Some t \<Rightarrow>
               if t = [] then s
               else append_fragment t (if isResultFinalRef s then clear_formula s else s)))"

subsection \<open>Tool dispatcher\<close>

text \<open>A value inside a template literal: \<open>undefined\<close> prints as its name.\<close>

definition template_string :: "string option \<Rightarrow> string" where
  "template_string v = (case v of None \<Rightarrow> ''undefined'' | Some t \<Rightarrow> t)"

text \<open>
  The body of the loop over \<open>functionCalls\<close>: the state change and the response pushed.
  The \<open>displayResult\<close> branch hands \<open>setHistory\<close> an updater: the history line is
  built when React applies it, from \<open>currentInputRef\<close> as it is then, so the branch only
  queues the update (a render right after the handler gives the line of the buffer at the
  call). \<open>setDisplayText\<close> is given \<open>text\<close> as it is, also when it is
  \<open>undefined\<close>.
\<close>

definition handle_function_call ::
  "FunctionCall \<Rightarrow> 't app_state \<Rightarrow> 't app_state \<times> FunctionResponse" where
  "handle_function_call fc s =
     (let result = ''ok'';
          s' =
            (if fc_name fc = ''displayResult'' then
               (let text = fc_args fc ''text'' in
                s\<lparr> displayText := text,
                   historyUpdates := historyUpdates s @ [PrependResult text],
                   isResultFinalRef := True \<rparr>)
             else if fc_name fc = ''resetApp'' then
               s\<lparr> displayText := Some ''0'',
                  expression := [],
                  currentInputRef := [],
                  historyUpdates := historyUpdates s @ [ClearHistory],
                  isResultFinalRef := False \<rparr>
             else s)
      in (s', \<lparr> fr_id = fc_id fc, fr_name = fc_name fc, fr_result = result \<rparr>))"

fun dispatch_calls ::
  "FunctionCall list \<Rightarrow> 't app_state \<Rightarrow> FunctionResponse list
     \<Rightarrow> 't app_state \<times> FunctionResponse list" where
  "dispatch_calls [] s functionResponses = (s, functionResponses)"
| "dispatch_calls (fc # fcs) s functionResponses =
     (case handle_function_call fc s of
        (s', r) \<Rightarrow> dispatch_calls fcs s' (functionResponses @ [r]))"

definition handle_tool_call ::
  "LiveServerMessage \<Rightarrow> 't app_state \<Rightarrow> 't app_state \<times> 't effect list" where
  "handle_tool_call m s =
     (case toolCall m of
        None \<Rightarrow> (s, [])
      | Some functionCalls \<Rightarrow>
          (case dispatch_calls functionCalls s [] of
             (s', functionResponses) \<Rightarrow>
               (s', [ConsoleLog ''Tool Call:'', ThenSendToolResponse functionResponses])))"

subsection \<open>Playback scheduler\<close>

text \<open>
  Part 3 of \<open>onmessage\<close>. \<open>now\<close> is \<open>ctx.currentTime\<close> as the handler reads it, once,
  when it raises the cursor and before it awaits the decoder.
  The helpers \<open>decode\<close> and \<open>decodeAudioData\<close> are imported from a module outside
  the sources, so the decoder is a parameter: \<open>decodeAudioData b\<close> is the duration of
  the buffer decoded from the base64 text \<open>b\<close>, or \<open>None\<close> when decoding throws. The
  handler awaits the decoder after it has raised the cursor to the clock; a throw rejects
  the handler with the state as it is then.
\<close>

definition handle_audio ::
  "(string \<Rightarrow> 't option) \<Rightarrow> 't \<Rightarrow> LiveServerMessage \<Rightarrow> ('t::{linorder,plus}) app_state
     \<Rightarrow> 't app_state \<times> 't effect list \<times> outcome" where
  "handle_audio decodeAudioData now m s =
     (case inlineData m of
        None \<Rightarrow> (s, [], Normal)
      | Some base64Audio \<Rightarrow>
          if base64Audio = [] then (s, [], Normal)
          else
            (case outputAudioContextRef s of
               None \<Rightarrow> (s, [], Normal)
             | Some ctx \<Rightarrow>
                 (let s1 = s\<lparr> nextStartTimeRef := max (nextStartTimeRef s) now \<rparr> in
                  case decodeAudioData base64Audio of
                    None \<Rightarrow> (s1, [], Abrupt)
                  | Some duration \<Rightarrow>
                      (let source = \<lparr> node_duration = duration, node_start = nextStartTimeRef s1 \<rparr>
                       in (s1\<lparr> nextStartTimeRef := nextStartTimeRef s1 + duration,
                               sourcesRef := sourcesRef s1 @ [source] \<rparr>,
                           [StartSource source], Normal)))))"

text \<open>The handler: the three parts in program order on the same message.\<close>

definition onmessage ::
  "(string \<Rightarrow> 't option) \<Rightarrow> 't \<Rightarrow> LiveServerMessage \<Rightarrow> ('t::{linorder,plus}) app_state
     \<Rightarrow> 't app_state \<times> 't effect list \<times> outcome" where
  "onmessage decodeAudioData now m s =
     (case handle_tool_call m (handle_transcription m s) of
        (s1, es1) \<Rightarrow>
          (case handle_audio decodeAudioData now m s1 of
             (s2, es2, out) \<Rightarrow> (s2, es1 @ es2, out)))"

text \<open>
  Messages handled in arrival order, each with the clock reading of its handler. Every
  message gets its own handler call, whatever the earlier ones returned, and a handler
  call runs to its end before the next one starts (the event loop runs no other callback
  while the decoder is awaited).
\<close>

fun run_messages ::
  "(string \<Rightarrow> 't option) \<Rightarrow> ('t \<times> LiveServerMessage) list \<Rightarrow> ('t::{linorder,plus}) app_state
     \<Rightarrow> 't app_state \<times> 't effect list" where
  "run_messages decodeAudioData [] s = (s, [])"
| "run_messages decodeAudioData ((now, m) # ms) s =
     (case onmessage decodeAudioData now m s of
        (s1, es1, out) \<Rightarrow>
          (case run_messages decodeAudioData ms s1 of
             (s2, es2) \<Rightarrow> (s2, es1 @ es2)))"

text \<open>The tool-response batches and the started buffers among a list of effects.\<close>

fun tool_responses :: "'t effect list \<Rightarrow> FunctionResponse list list" where
  "tool_responses [] = []"
| "tool_responses (ThenSendToolResponse rs # es) = rs # tool_responses es"
| "tool_responses (e # es) = tool_responses es"

fun started :: "'t effect list \<Rightarrow> 't source_node list" where
  "started [] = []"
| "started (StartSource n # es) = n # started es"
| "started (e # es) = started es"

text \<open>The acknowledgement of a call: its id, its name and the marker \<open>ok\<close>.\<close>

definition acknowledgement :: "FunctionCall \<Rightarrow> FunctionResponse" where
  "acknowledgement fc = \<lparr> fr_id = fc_id fc, fr_name = fc_name fc, fr_result = ''ok'' \<rparr>"

section \<open>Session lifecycle\<close>

text \<open>
  \<open>cleanup\<close>: every reference that is set is released and nulled, every playing source
  is stopped and the set cleared, then the state cells are reset. The calls
  \<open>track.stop()\<close>, \<open>AudioContext.close()\<close> and \<open>source.stop()\<close> are platform calls
  recorded as effects; \<open>close()\<close> hands back a promise and \<open>stop()\<close> is called on
  sources that were started before they entered the set.
\<close>

definition cleanup :: "'t app_state \<Rightarrow> 't app_state \<times> 't effect list" where
  "cleanup s =
     (s\<lparr> streamRef := None,
         inputAudioContextRef := None,
         outputAudioContextRef := None,
         sessionRef := None,
         sourcesRef := [],
         connectionState := DISCONNECTED,
         analyser := None,
         currentInputRef := [],
         isResultFinalRef := False \<rparr>,
      (case streamRef s of None \<Rightarrow> [] | Some stream \<Rightarrow> [StopTracks stream]) @
      (case inputAudioContextRef s of None \<Rightarrow> [] | Some ctx \<Rightarrow> [CloseContext ctx]) @
      (case outputAudioContextRef s of None \<Rightarrow> [] | Some ctx \<Rightarrow> [CloseContext ctx]) @
      (case sessionRef s of None \<Rightarrow> [] | Some p \<Rightarrow> [ThenCloseSession p]) @
      map StopSource (sourcesRef s))"

text \<open>
  The callback \<open>cleanup\<close> queues on the session promise: \<open>session.close()\<close> inside
  \<open>try\<close>, a throw caught and logged with \<open>console.warn\<close>. \<open>close_throws\<close> says
  whether the transport's \<open>close\<close> throws.
\<close>

definition close_session_callback :: "nat \<Rightarrow> bool \<Rightarrow> 't effect list \<times> outcome" where
  "close_session_callback session close_throws =
     (CloseSession session # (if close_throws then [ConsoleWarn ''Error closing session''] else []),
      Normal)"

text \<open>
  \<open>connect\<close> is an async function with one \<open>await\<close> inside its \<open>try\<close>. The first
  definition is the part that runs when it is called, up to
  \<open>await navigator.mediaDevices.getUserMedia\<close>; the second is its continuation once
  that promise settles (\<open>None\<close>: rejected). \<open>apiKey\<close> is \<open>process.env.API_KEY\<close>
  (falsy when undefined or empty); the other arguments are the handles of the objects
  the platform creates. Either \<open>throw\<close> lands in the \<open>catch\<close> block.
\<close>

definition connect ::
  "string option \<Rightarrow> nat \<Rightarrow> nat \<Rightarrow> 't app_state \<Rightarrow> 't app_state \<times> 't effect list" where
  "connect apiKey inputCtx outputCtx s =
     (let s1 = s\<lparr> connectionState := CONNECTING \<rparr> in
      if apiKey = None \<or> apiKey = Some [] then
        (s1\<lparr> connectionState := ERROR \<rparr>, [ConsoleError ''Connection failed''])
      else
        (s1\<lparr> inputAudioContextRef := Some inputCtx, outputAudioContextRef := Some outputCtx \<rparr>,
         []))"

definition connect_resumed ::
  "nat option \<Rightarrow> nat \<Rightarrow> nat \<Rightarrow> 't app_state \<Rightarrow> 't app_state \<times> 't effect list" where
  "connect_resumed media analyserNode sessionPromise s =
     (case media of
        None \<Rightarrow> (s\<lparr> connectionState := ERROR \<rparr>, [ConsoleError ''Connection failed''])
      | Some stream \<Rightarrow>
          (s\<lparr> streamRef := Some stream,
              analyser := Some analyserNode,
              sessionRef := Some sessionPromise \<rparr>,
           []))"

text \<open>
  The transport callbacks. \<open>onopen\<close> also wires the microphone to the transport, which
  touches none of the state cells.
\<close>

definition onopen :: "'t app_state \<Rightarrow> 't app_state \<times> 't effect list" where
  "onopen s = (s\<lparr> connectionState := CONNECTED \<rparr>, [ConsoleLog ''Gemini Live Connected''])"

definition onclose :: "'t app_state \<Rightarrow> 't app_state \<times> 't effect list" where
  "onclose s = (s\<lparr> connectionState := DISCONNECTED \<rparr>, [ConsoleLog ''Gemini Live Closed''])"

definition onerror :: "'t app_state \<Rightarrow> 't app_state \<times> 't effect list" where
  "onerror s =
     (case cleanup (s\<lparr> connectionState := ERROR \<rparr>) of
        (s', es) \<Rightarrow> (s', ConsoleError ''Gemini Live Error'' # es))"

text \<open>The \<open>ended\<close> listener of the \<open>i\<close>-th source of the set: that source is deleted.\<close>

definition onended :: "nat \<Rightarrow> 't app_state \<Rightarrow> 't app_state" where
  "onended i s = s\<lparr> sourcesRef := take i (sourcesRef s) @ drop (Suc i) (sourcesRef s) \<rparr>"

text \<open>The two intents of the presentation surface.\<close>

definition toggleConnection ::
  "string option \<Rightarrow> nat \<Rightarrow> nat \<Rightarrow> 't app_state \<Rightarrow> 't app_state \<times> 't effect list" where
  "toggleConnection apiKey inputCtx outputCtx s =
     (if connectionState s = CONNECTED \<or> connectionState s = CONNECTING then cleanup s
      else connect apiKey inputCtx outputCtx s)"

definition handleManualReset :: "'t app_state \<Rightarrow> 't app_state" where
  "handleManualReset s =
     s\<lparr> displayText := Some ''0'',
        expression := [],
        historyUpdates := historyUpdates s @ [ClearHistory],
        currentInputRef := [],
        isResultFinalRef := False \<rparr>"

subsection \<open>Rendering\<close>

text \<open>
  The updater of the \<open>displayResult\<close> branch applied to the history \<open>prev\<close> while
  the transcription buffer holds \<open>cur\<close>: the line made of \<open>currentInputRef.current\<close>,
  \<open> = \<close> and \<open>text\<close> is put before \<open>prev\<close> and \<open>slice(0, 10)\<close> is kept. A
  queue of updates is applied in the order of the calls.
\<close>

fun apply_history_update :: "string \<Rightarrow> history_update \<Rightarrow> string list \<Rightarrow> string list" where
  "apply_history_update cur (PrependResult text) prev =
     take 10 ((cur @ '' = '' @ template_string text) # prev)"
| "apply_history_update cur ClearHistory prev = []"

fun apply_history_updates ::
  "string \<Rightarrow> history_update list \<Rightarrow> string list \<Rightarrow> string list" where
  "apply_history_updates cur [] prev = prev"
| "apply_history_updates cur (u # us) prev =
     apply_history_updates cur us (apply_history_update cur u prev)"

text \<open>
  A render of the component: React applies the queued history updates, then the JSX is
  evaluated. The JSX reads \<open>displayText.length\<close>, which throws when \<open>displayText\<close> is
  \<open>undefined\<close>; the component has no error boundary, so React then drops the render
  with its updates, unmounts the tree and runs the unmount effect, which calls
  \<open>cleanup\<close>. The cells of an unmounted component are shown no more; the model leaves
  them as they were.
\<close>

definition render :: "'t app_state \<Rightarrow> 't app_state \<times> 't effect list \<times> outcome" where
  "render s =
     (case displayText s of
        None \<Rightarrow> (case cleanup s of (s', es) \<Rightarrow> (s', es, Abrupt))
      | Some shown \<Rightarrow>
          (s\<lparr> history := apply_history_updates (currentInputRef s) (historyUpdates s) (history s),
              historyUpdates := [] \<rparr>,
           [], Normal))"

subsection \<open>The event loop\<close>

text \<open>
  Everything that can run on the component: the two intents, the continuation of
  \<open>connect\<close>, the four transport callbacks, an \<open>ended\<close> notification, a render,
  and the unmount effect (which calls \<open>cleanup\<close>).
\<close>

datatype 't event =
    ToggleConnection "string option" nat nat
  | GetUserMediaSettled "nat option" nat nat
  | SessionOpen
  | SessionMessage 't LiveServerMessage
  | SessionClose
  | SessionError
  | SourceEnded nat
  | ManualReset
  | Render
  | Unmount

fun step ::
  "(string \<Rightarrow> 't option) \<Rightarrow> 't event \<Rightarrow> ('t::{linorder,plus}) app_state \<Rightarrow> 't app_state" where
  "step d (ToggleConnection apiKey inputCtx outputCtx) s = fst (toggleConnection apiKey inputCtx outputCtx s)"
| "step d (GetUserMediaSettled media analyserNode sessionPromise) s =
     fst (connect_resumed media analyserNode sessionPromise s)"
| "step d SessionOpen s = fst (onopen s)"
| "step d (SessionMessage now m) s = fst (onmessage d now m s)"
| "step d SessionClose s = fst (onclose s)"
| "step d SessionError s = fst (onerror s)"
| "step d (SourceEnded i) s = onended i s"
| "step d ManualReset s = handleManualReset s"
| "step d Render s = fst (render s)"
| "step d Unmount s = fst (cleanup s)"

fun run_events ::
  "(string \<Rightarrow> 't option) \<Rightarrow> 't event list \<Rightarrow> ('t::{linorder,plus}) app_state \<Rightarrow> 't app_state" where
  "run_events d [] s = s"
| "run_events d (ev # evs) s = run_events d evs (step d ev s)"

section \<open>Properties stated over the model\<close>

text \<open>
  Buffers in scheduling order are back to back when each one starts no earlier than the
  one before it ends.
\<close>

fun back_to_back :: "('t::{linorder,plus}) source_node list \<Rightarrow> bool" where
  "back_to_back [] = True"
| "back_to_back [a] = True"
| "back_to_back (a # b # ns) =
     (node_start a + node_duration a \<le> node_start b \<and> back_to_back (b # ns))"

text \<open>The text a message contributes to the formula: its transcription text, if any.\<close>

definition fragment_text :: "LiveServerMessage \<Rightarrow> string" where
  "fragment_text m =
     (case inputTranscription m of
        None \<Rightarrow> []
      | Some inputTr \<Rightarrow> (case tr_text inputTr of None \<Rightarrow> [] | Some t \<Rightarrow> t))"

text \<open>
  The interface \<open>CalculationLog\<close> of \<open>types.ts\<close> (\<open>expression: string\<close>,
  \<open>result: string\<close>, \<open>timestamp: number\<close>) as a shape of run-time values, next to the
  shape the history really holds: plain strings.
\<close>

datatype js_value =
    JUndefined
  | JString string
  | JNumber int
  | JObject "(string \<times> js_value) list"

definition is_CalculationLog :: "js_value \<Rightarrow> bool" where
  "is_CalculationLog v =
     (case v of
        JObject props \<Rightarrow>
          (case (map_of props ''expression'', map_of props ''result'', map_of props ''timestamp'') of
             (Some (JString e), Some (JString r), Some (JNumber t)) \<Rightarrow> True
           | _ \<Rightarrow> False)
      | _ \<Rightarrow> False)"

section \<open>Example inputs\<close>

text \<open>Messages that carry one part only, and the calls of the two declared tools.\<close>

definition transcription_message :: "string \<Rightarrow> LiveServerMessage" where
  "transcription_message t =
     \<lparr> inputTranscription = Some \<lparr> tr_text = Some t \<rparr>, toolCall = None, inlineData = None \<rparr>"

definition tool_message :: "FunctionCall list \<Rightarrow> LiveServerMessage" where
  "tool_message fcs = \<lparr> inputTranscription = None, toolCall = Some fcs, inlineData = None \<rparr>"

definition audio_message :: "string \<Rightarrow> LiveServerMessage" where
  "audio_message b = \<lparr> inputTranscription = None, toolCall = None, inlineData = Some b \<rparr>"

definition displayResult_call :: "string \<Rightarrow> string \<Rightarrow> FunctionCall" where
  "displayResult_call i t = \<lparr> fc_id = i, fc_name = ''displayResult'', fc_args = [''text'' \<mapsto> t] \<rparr>"

definition resetApp_call :: "string \<Rightarrow> FunctionCall" where
  "resetApp_call i = \<lparr> fc_id = i, fc_name = ''resetApp'', fc_args = Map.empty \<rparr>"

text \<open>A batch with a call of each tool and a call of a tool the component does not know.\<close>

definition example_batch :: "FunctionCall list" where
  "example_batch =
     [displayResult_call ''c1'' ''8'',
      \<lparr> fc_id = ''c2'', fc_name = ''playJingle'', fc_args = Map.empty \<rparr>,
      resetApp_call ''c3'']"

text \<open>
  A decoder over an integer clock: one chunk decodes to a buffer of three ticks, every
  other text fails to decode.
\<close>

definition example_decoder :: "string \<Rightarrow> int option" where
  "example_decoder b = (if b = ''UklGRg=='' then Some 3 else None)"

text \<open>The state once a session is open: toggled on, microphone granted, transport open.\<close>

definition connected_state :: "int app_state" where
  "connected_state =
     run_events example_decoder
       [ToggleConnection (Some ''key'') 1 2, GetUserMediaSettled (Some 3) 4 5, SessionOpen]
       initial_state"

text \<open>The state after the formula \<open>3+5\<close> was heard, and after its result \<open>8\<close> was displayed.\<close>

definition formula_state :: "int app_state" where
  "formula_state = fst (onmessage example_decoder 0 (transcription_message ''3+5'') connected_state)"

definition finalized_state :: "int app_state" where
  "finalized_state =
     fst (render (fst (onmessage example_decoder 1 (tool_message [displayResult_call ''c1'' ''8''])
       formula_state)))"

text \<open>The state while one decoded buffer is playing.\<close>

definition playing_state :: "int app_state" where
  "playing_state = fst (onmessage example_decoder 5 (audio_message ''UklGRg=='') connected_state)"

text \<open>The state after a connection attempt without an API key.\<close>

definition error_state :: "int app_state" where
  "error_state = run_events example_decoder [ToggleConnection None 1 2] initial_state"

text \<open>
  Ten results in a row (the even numbers up to 20), received while nothing was heard, and
  then a render.
\<close>

definition ten_results :: "int event list" where
  "ten_results =
     map (\<lambda>t. SessionMessage 0 (tool_message [displayResult_call ''c'' t]))
       [''2'', ''4'', ''6'', ''8'', ''10'', ''12'', ''14'', ''16'', ''18'', ''20'']
     @ [Render]"

text \<open>A \<open>displayResult\<close> call whose argument map is empty.\<close>

definition textless_call :: FunctionCall where
  "textless_call = \<lparr> fc_id = ''c9'', fc_name = ''displayResult'', fc_args = Map.empty \<rparr>"

text \<open>
  A teardown while \<open>connect\<close> is pending: the toggle starts \<open>connect\<close>, a second toggle
  runs \<open>cleanup\<close> while \<open>getUserMedia\<close> is awaited, then the microphone is granted
  and the session opens.
\<close>

definition pending_connect_events :: "int event list" where
  "pending_connect_events = [ToggleConnection (Some ''key'') 1 2, ToggleConnection (Some ''key'') 6 7]"

definition resumed_connect_events :: "int event list" where
  "resumed_connect_events =
     pending_connect_events @ [GetUserMediaSettled (Some 3) 4 5, SessionOpen]"

section \<open>Auxiliary facts about the handler\<close>

lemma connected_state_eq:
  "connected_state =
     \<lparr> connectionState = CONNECTED, displayText = Some initial_displayText, expression = [],
       history = [], analyser = Some 4, historyUpdates = [],
       inputAudioContextRef = Some 1,
       outputAudioContextRef = Some 2, streamRef = Some 3, sessionRef = Some 5,
       nextStartTimeRef = 0, sourcesRef = [], currentInputRef = [], isResultFinalRef = False \<rparr>"
  by (simp add: connected_state_def initial_state_def toggleConnection_def connect_def
      connect_resumed_def onopen_def)

lemma formula_state_eq:
  "formula_state =
     \<lparr> connectionState = CONNECTED, displayText = Some initial_displayText, expression = ''3+5'',
       history = [], analyser = Some 4, historyUpdates = [],
       inputAudioContextRef = Some 1,
       outputAudioContextRef = Some 2, streamRef = Some 3, sessionRef = Some 5,
       nextStartTimeRef = 0, sourcesRef = [], currentInputRef = ''3+5'', isResultFinalRef = False \<rparr>"
  by (simp add: formula_state_def connected_state_eq onmessage_def handle_transcription_def
      handle_tool_call_def handle_audio_def transcription_message_def append_fragment_def)

lemma finalized_state_eq:
  "finalized_state =
     \<lparr> connectionState = CONNECTED, displayText = Some ''8'', expression = ''3+5'',
       history = [''3+5 = 8''], analyser = Some 4, historyUpdates = [],
       inputAudioContextRef = Some 1,
       outputAudioContextRef = Some 2, streamRef = Some 3, sessionRef = Some 5,
       nextStartTimeRef = 0, sourcesRef = [], currentInputRef = ''3+5'', isResultFinalRef = True \<rparr>"
  by (simp add: finalized_state_def formula_state_eq onmessage_def handle_transcription_def
      handle_tool_call_def handle_function_call_def handle_audio_def tool_message_def
      displayResult_call_def template_string_def render_def Let_def)

lemma playing_state_eq:
  "playing_state =
     \<lparr> connectionState = CONNECTED, displayText = Some initial_displayText, expression = [],
       history = [], analyser = Some 4, historyUpdates = [],
       inputAudioContextRef = Some 1,
       outputAudioContextRef = Some 2, streamRef = Some 3, sessionRef = Some 5,
       nextStartTimeRef = 8, sourcesRef = [\<lparr> node_duration = 3, node_start = 5 \<rparr>],
       currentInputRef = [], isResultFinalRef = False \<rparr>"
  by (simp add: playing_state_def connected_state_eq onmessage_def handle_transcription_def
      handle_tool_call_def handle_audio_def audio_message_def example_decoder_def Let_def)

lemma error_state_eq:
  "error_state =
     \<lparr> connectionState = ERROR, displayText = Some initial_displayText, expression = [],
       history = [], analyser = None, historyUpdates = [],
       inputAudioContextRef = None,
       outputAudioContextRef = None, streamRef = None, sessionRef = None,
       nextStartTimeRef = 0, sourcesRef = [], currentInputRef = [], isResultFinalRef = False \<rparr>"
  by (simp add: error_state_def toggleConnection_def connect_def initial_state_def)

lemma started_append: "started (es @ fs) = started es @ started fs"
  by (induction es rule: started.induct) simp_all

lemma tool_responses_append: "tool_responses (es @ fs) = tool_responses es @ tool_responses fs"
  by (induction es rule: tool_responses.induct) simp_all

lemma onmessage_state:
  "fst (onmessage d now m s) =
     fst (handle_audio d now m (fst (handle_tool_call m (handle_transcription m s))))"
  by (simp add: onmessage_def split: prod.splits)

lemma onmessage_effects:
  "fst (snd (onmessage d now m s)) =
     snd (handle_tool_call m (handle_transcription m s)) @
     fst (snd (handle_audio d now m (fst (handle_tool_call m (handle_transcription m s)))))"
  by (simp add: onmessage_def split: prod.splits)

lemma onmessage_outcome:
  "snd (snd (onmessage d now m s)) =
     snd (snd (handle_audio d now m (fst (handle_tool_call m (handle_transcription m s)))))"
  by (simp add: onmessage_def split: prod.splits)

lemma onmessage_no_tool_call:
  "toolCall m = None \<Longrightarrow>
     fst (onmessage d now m s) = fst (handle_audio d now m (handle_transcription m s))"
  by (simp add: onmessage_def handle_tool_call_def split: prod.splits)

lemma run_messages_Cons_state:
  "fst (run_messages d ((now, m) # ms) s) = fst (run_messages d ms (fst (onmessage d now m s)))"
  by (simp split: prod.splits)

lemma run_messages_Cons_effects:
  "snd (run_messages d ((now, m) # ms) s) =
     fst (snd (onmessage d now m s)) @ snd (run_messages d ms (fst (onmessage d now m s)))"
  by (simp split: prod.splits)

subsection \<open>What each part of the handler leaves alone\<close>

lemma handle_transcription_frame:
  "nextStartTimeRef (handle_transcription m s) = nextStartTimeRef s"
  "outputAudioContextRef (handle_transcription m s) = outputAudioContextRef s"
  "sourcesRef (handle_transcription m s) = sourcesRef s"
  "connectionState (handle_transcription m s) = connectionState s"
  "sessionRef (handle_transcription m s) = sessionRef s"
  by (simp_all add: handle_transcription_def append_fragment_def clear_formula_def
      split: option.splits)

lemma handle_function_call_frame:
  "nextStartTimeRef (fst (handle_function_call fc s)) = nextStartTimeRef s"
  "outputAudioContextRef (fst (handle_function_call fc s)) = outputAudioContextRef s"
  "sourcesRef (fst (handle_function_call fc s)) = sourcesRef s"
  "connectionState (fst (handle_function_call fc s)) = connectionState s"
  "sessionRef (fst (handle_function_call fc s)) = sessionRef s"
  by (simp_all add: handle_function_call_def Let_def)

lemma dispatch_calls_frame:
  "nextStartTimeRef (fst (dispatch_calls fcs s acc)) = nextStartTimeRef s \<and>
   outputAudioContextRef (fst (dispatch_calls fcs s acc)) = outputAudioContextRef s \<and>
   sourcesRef (fst (dispatch_calls fcs s acc)) = sourcesRef s \<and>
   connectionState (fst (dispatch_calls fcs s acc)) = connectionState s \<and>
   sessionRef (fst (dispatch_calls fcs s acc)) = sessionRef s"
proof (induction fcs arbitrary: s acc)
  case Nil
  show ?case by simp
next
  case (Cons fc fcs)
  obtain s' r where h: "handle_function_call fc s = (s', r)"
    by (cases "handle_function_call fc s")
  have "s' = fst (handle_function_call fc s)" using h by simp
  then have "nextStartTimeRef s' = nextStartTimeRef s"
    "outputAudioContextRef s' = outputAudioContextRef s"
    "sourcesRef s' = sourcesRef s"
    "connectionState s' = connectionState s"
    "sessionRef s' = sessionRef s"
    by (simp_all add: handle_function_call_frame)
  with Cons.IH [of s' "acc @ [r]"] h show ?case by simp
qed

lemma handle_tool_call_state:
  "fst (handle_tool_call m s) =
     (case toolCall m of None \<Rightarrow> s | Some fcs \<Rightarrow> fst (dispatch_calls fcs s []))"
  by (simp add: handle_tool_call_def split: option.splits prod.splits)

lemma handle_tool_call_frame:
  "nextStartTimeRef (fst (handle_tool_call m s)) = nextStartTimeRef s"
  "outputAudioContextRef (fst (handle_tool_call m s)) = outputAudioContextRef s"
  "sourcesRef (fst (handle_tool_call m s)) = sourcesRef s"
  "connectionState (fst (handle_tool_call m s)) = connectionState s"
  "sessionRef (fst (handle_tool_call m s)) = sessionRef s"
  by (simp_all add: handle_tool_call_state dispatch_calls_frame split: option.splits)

lemma handle_tool_call_starts_nothing: "started (snd (handle_tool_call m s)) = []"
  by (simp add: handle_tool_call_def split: option.splits prod.splits)

lemma handle_audio_no_tool_response:
  "tool_responses (fst (snd (handle_audio d now m s))) = []"
  by (simp add: handle_audio_def Let_def split: option.splits)

lemma handle_audio_keeps_formula:
  "expression (fst (handle_audio d now m s)) = expression s"
  "currentInputRef (fst (handle_audio d now m s)) = currentInputRef s"
  "isResultFinalRef (fst (handle_audio d now m s)) = isResultFinalRef s"
  by (simp_all add: handle_audio_def Let_def split: option.splits)

section \<open>Playback scheduler: buffers back to back\<close>

lemma handle_audio_scheduled:
  assumes "inlineData m = Some b" and "b \<noteq> []" and "outputAudioContextRef s = Some ctx"
    and "d b = Some duration"
  shows "handle_audio d now m s =
     (s\<lparr> nextStartTimeRef := max (nextStartTimeRef s) now + duration,
         sourcesRef := sourcesRef s @
           [\<lparr> node_duration = duration, node_start = max (nextStartTimeRef s) now \<rparr>] \<rparr>,
      [StartSource \<lparr> node_duration = duration, node_start = max (nextStartTimeRef s) now \<rparr>],
      Normal)"
  using assms by (simp add: handle_audio_def Let_def)

lemma handle_audio_failed:
  assumes "inlineData m = Some b" and "b \<noteq> []" and "outputAudioContextRef s = Some ctx"
    and "d b = None"
  shows "handle_audio d now m s =
     (s\<lparr> nextStartTimeRef := max (nextStartTimeRef s) now \<rparr>, [], Abrupt)"
  using assms by (simp add: handle_audio_def Let_def)

text \<open>
  One message either starts no buffer and does not lower the cursor, or starts one buffer
  at the cursor raised to the clock and leaves the cursor at that buffer's end.
\<close>

lemma handle_audio_step:
  "(started (fst (snd (handle_audio d now m s))) = [] \<and>
      nextStartTimeRef s \<le> nextStartTimeRef (fst (handle_audio d now m s)))
   \<or> (\<exists>n. started (fst (snd (handle_audio d now m s))) = [n] \<and>
        node_start n = max (nextStartTimeRef s) now \<and>
        nextStartTimeRef (fst (handle_audio d now m s)) = node_start n + node_duration n)"
  by (simp add: handle_audio_def Let_def split: option.splits)

lemma onmessage_step:
  "(started (fst (snd (onmessage d now m s))) = [] \<and>
      nextStartTimeRef s \<le> nextStartTimeRef (fst (onmessage d now m s)))
   \<or> (\<exists>n. started (fst (snd (onmessage d now m s))) = [n] \<and>
        node_start n = max (nextStartTimeRef s) now \<and>
        nextStartTimeRef (fst (onmessage d now m s)) = node_start n + node_duration n)"
  using handle_audio_step [of d now m "fst (handle_tool_call m (handle_transcription m s))"]
  by (simp add: onmessage_effects onmessage_state started_append handle_tool_call_starts_nothing
      handle_tool_call_frame handle_transcription_frame)

lemma run_messages_back_to_back:
  "back_to_back (started (snd (run_messages d ms s))) \<and>
   (\<forall>n ns. started (snd (run_messages d ms s)) = n # ns \<longrightarrow> nextStartTimeRef s \<le> node_start n)"
proof (induction ms arbitrary: s)
  case Nil
  show ?case by simp
next
  case (Cons p ms)
  obtain now m where p: "p = (now, m)" by (cases p)
  let ?s1 = "fst (onmessage d now m s)"
  let ?es1 = "fst (snd (onmessage d now m s))"
  let ?rest = "started (snd (run_messages d ms ?s1))"
  have eff: "started (snd (run_messages d (p # ms) s)) = started ?es1 @ ?rest"
    by (simp only: p run_messages_Cons_effects started_append)
  have ih1: "back_to_back ?rest"
    and ih2: "\<And>n ns. ?rest = n # ns \<Longrightarrow> nextStartTimeRef ?s1 \<le> node_start n"
    using Cons.IH [of ?s1] by blast+
  from onmessage_step [of d now m s] show ?case
  proof (elim disjE conjE exE)
    assume e: "started ?es1 = []" and le: "nextStartTimeRef s \<le> nextStartTimeRef ?s1"
    show ?thesis
      unfolding eff e using ih1 ih2 le by (auto intro: order_trans)
  next
    fix n
    assume e: "started ?es1 = [n]"
      and st: "node_start n = max (nextStartTimeRef s) now"
      and nx: "nextStartTimeRef ?s1 = node_start n + node_duration n"
    have b: "back_to_back (n # ?rest)"
    proof (cases ?rest)
      case Nil
      then show ?thesis by simp
    next
      case (Cons b bs)
      with ih1 ih2 [of b bs] nx show ?thesis by simp
    qed
    show ?thesis
      unfolding eff e using b st by simp
  qed
qed

text \<open>
  Claim C1. A fragment that decodes (non-empty audio data, an output context, a decoded
  buffer of some duration) starts exactly one buffer, at the maximum of the cursor
  \<open>nextStartTimeRef\<close> and the output device's clock as the handler reads it, so never
  before that clock; the cursor is then that start time plus the buffer's duration. For
  every sequence of messages handled in arrival order from any state, every buffer
  started after another starts no earlier than the earlier one's start plus its duration.
\<close>

theorem playback_back_to_back:
  assumes "inlineData m = Some base64Audio" and "base64Audio \<noteq> []"
    and "outputAudioContextRef s = Some ctx"
    and "decodeAudioData base64Audio = Some duration"
  shows "started (fst (snd (onmessage decodeAudioData now m s))) =
           [\<lparr> node_duration = duration, node_start = max (nextStartTimeRef s) now \<rparr>]
       \<and> nextStartTimeRef (fst (onmessage decodeAudioData now m s)) =
           max (nextStartTimeRef s) now + duration
       \<and> now \<le> max (nextStartTimeRef s) now
       \<and> back_to_back (started (snd (run_messages decodeAudioData ms s0)))"
proof -
  let ?s1 = "fst (handle_tool_call m (handle_transcription m s))"
  have ctx: "outputAudioContextRef ?s1 = Some ctx"
    using assms(3) by (simp add: handle_tool_call_frame handle_transcription_frame)
  have nx: "nextStartTimeRef ?s1 = nextStartTimeRef s"
    by (simp add: handle_tool_call_frame handle_transcription_frame)
  note a = handle_audio_scheduled [where d = decodeAudioData, OF assms(1,2) ctx assms(4), of now]
  have "started (fst (snd (onmessage decodeAudioData now m s))) =
          [\<lparr> node_duration = duration, node_start = max (nextStartTimeRef s) now \<rparr>]"
    by (simp add: onmessage_effects started_append handle_tool_call_starts_nothing a nx)
  moreover have "nextStartTimeRef (fst (onmessage decodeAudioData now m s)) =
          max (nextStartTimeRef s) now + duration"
    by (simp add: onmessage_state a nx)
  moreover have "now \<le> max (nextStartTimeRef s) now" by simp
  moreover have "back_to_back (started (snd (run_messages decodeAudioData ms s0)))"
    using run_messages_back_to_back [of decodeAudioData ms s0] by simp
  ultimately show ?thesis by simp
qed

theorem playback_back_to_back_witness:
  "started (fst (snd (onmessage example_decoder 5 (audio_message ''UklGRg=='') connected_state))) =
     [\<lparr> node_duration = 3, node_start = 5 \<rparr>]
   \<and> nextStartTimeRef (fst (onmessage example_decoder 5 (audio_message ''UklGRg=='') connected_state)) = 8
   \<and> started (snd (run_messages example_decoder
        [(5, audio_message ''UklGRg==''), (6, audio_message ''UklGRg=='')] connected_state)) =
     [\<lparr> node_duration = 3, node_start = 5 \<rparr>, \<lparr> node_duration = 3, node_start = 8 \<rparr>]
   \<and> back_to_back (started (snd (run_messages example_decoder
        [(5, audio_message ''UklGRg==''), (6, audio_message ''UklGRg=='')] connected_state)))"
proof -
  have h1: "inlineData (audio_message ''UklGRg=='') = Some ''UklGRg==''"
    by (simp add: audio_message_def)
  have h2: "''UklGRg=='' \<noteq> []" by simp
  have h3: "outputAudioContextRef connected_state = Some 2"
    by (simp add: connected_state_eq)
  have h4: "example_decoder ''UklGRg=='' = Some 3"
    by (simp add: example_decoder_def)
  have h5: "nextStartTimeRef connected_state = 0"
    by (simp add: connected_state_eq)
  have run: "started (snd (run_messages example_decoder
        [(5, audio_message ''UklGRg==''), (6, audio_message ''UklGRg=='')] connected_state)) =
     [\<lparr> node_duration = 3, node_start = 5 \<rparr>, \<lparr> node_duration = 3, node_start = 8 \<rparr>]"
    by (simp add: connected_state_eq onmessage_def handle_transcription_def
        handle_tool_call_def handle_audio_def audio_message_def example_decoder_def Let_def)
  from playback_back_to_back [where decodeAudioData = example_decoder, OF h1 h2 h3 h4, of 5
      "[(5, audio_message ''UklGRg==''), (6, audio_message ''UklGRg=='')]" connected_state]
  show ?thesis
    by (simp add: run h5 del: run_messages.simps)
qed

section \<open>Tool dispatch: acknowledgements\<close>

lemma handle_function_call_ack: "snd (handle_function_call fc s) = acknowledgement fc"
  by (simp add: handle_function_call_def acknowledgement_def Let_def)

lemma dispatch_calls_acks:
  "snd (dispatch_calls fcs s acc) = acc @ map acknowledgement fcs"
proof (induction fcs arbitrary: s acc)
  case Nil
  show ?case by simp
next
  case (Cons fc fcs)
  obtain s' r where h: "handle_function_call fc s = (s', r)"
    by (cases "handle_function_call fc s")
  then have "r = acknowledgement fc"
    using handle_function_call_ack [of fc s] by simp
  with h Cons.IH [of s' "acc @ [r]"] show ?case by simp
qed

lemma handle_tool_call_responses:
  "tool_responses (snd (handle_tool_call m s)) =
     (case toolCall m of None \<Rightarrow> [] | Some fcs \<Rightarrow> [map acknowledgement fcs])"
proof (cases "toolCall m")
  case None
  then show ?thesis by (simp add: handle_tool_call_def)
next
  case (Some fcs)
  obtain s' rs where h: "dispatch_calls fcs s [] = (s', rs)"
    by (cases "dispatch_calls fcs s []")
  then have "rs = map acknowledgement fcs"
    using dispatch_calls_acks [of fcs s "[]"] by simp
  with Some h show ?thesis by (simp add: handle_tool_call_def)
qed

text \<open>
  Claim C2. A message that carries a tool-call batch makes the handler queue exactly one
  tool response on the session, whatever else the message carries and whatever the state.
  That response holds one acknowledgement per call, in call order: as many acknowledgements
  as calls, each with its call's id and name and the marker \<open>ok\<close>, also for a call whose
  name is neither \<open>displayResult\<close> nor \<open>resetApp\<close>.
\<close>

theorem tool_batch_acknowledged:
  assumes "toolCall m = Some functionCalls"
  shows "tool_responses (fst (snd (onmessage d now m s))) = [map acknowledgement functionCalls]
       \<and> length (map acknowledgement functionCalls) = length functionCalls
       \<and> map fr_id (map acknowledgement functionCalls) = map fc_id functionCalls
       \<and> map fr_name (map acknowledgement functionCalls) = map fc_name functionCalls
       \<and> map fr_result (map acknowledgement functionCalls) =
           replicate (length functionCalls) ''ok''"
proof -
  have "tool_responses (fst (snd (onmessage d now m s))) = [map acknowledgement functionCalls]"
    using assms
    by (simp add: onmessage_effects tool_responses_append handle_tool_call_responses
        handle_audio_no_tool_response)
  moreover have "map fr_id (map acknowledgement functionCalls) = map fc_id functionCalls"
    by (simp add: acknowledgement_def)
  moreover have "map fr_name (map acknowledgement functionCalls) = map fc_name functionCalls"
    by (simp add: acknowledgement_def)
  moreover have "map fr_result (map acknowledgement functionCalls) =
      replicate (length functionCalls) ''ok''"
    by (induction functionCalls) (simp_all add: acknowledgement_def)
  ultimately show ?thesis by simp
qed

theorem tool_batch_acknowledged_witness:
  "tool_responses (fst (snd (onmessage example_decoder 0 (tool_message example_batch)
       connected_state))) =
     [[\<lparr> fr_id = ''c1'', fr_name = ''displayResult'', fr_result = ''ok'' \<rparr>,
       \<lparr> fr_id = ''c2'', fr_name = ''playJingle'', fr_result = ''ok'' \<rparr>,
       \<lparr> fr_id = ''c3'', fr_name = ''resetApp'', fr_result = ''ok'' \<rparr>]]"
proof -
  have h: "toolCall (tool_message example_batch) = Some example_batch"
    by (simp add: tool_message_def)
  from tool_batch_acknowledged [OF h, of example_decoder 0 connected_state]
  show ?thesis
    by (simp add: example_batch_def acknowledgement_def displayResult_call_def resetApp_call_def)
qed

section \<open>Transcription accumulator\<close>

lemma handle_transcription_appends:
  assumes "\<not> isResultFinalRef s" and "currentInputRef s = expression s"
  shows "expression (handle_transcription m s) = expression s @ fragment_text m"
    and "currentInputRef (handle_transcription m s) = expression s @ fragment_text m"
    and "\<not> isResultFinalRef (handle_transcription m s)"
  using assms
  by (simp_all add: handle_transcription_def fragment_text_def append_fragment_def
      split: option.splits)

lemma run_messages_appends:
  assumes "\<not> isResultFinalRef s" and "currentInputRef s = expression s"
    and "\<forall>(now, m) \<in> set ms. toolCall m = None"
  shows "expression (fst (run_messages d ms s)) =
           expression s @ concat (map (\<lambda>p. fragment_text (snd p)) ms)"
  using assms
proof (induction ms arbitrary: s)
  case Nil
  then show ?case by simp
next
  case (Cons p ms)
  obtain now m where p: "p = (now, m)" by (cases p)
  let ?s1 = "fst (onmessage d now m s)"
  have nt: "toolCall m = None" using Cons.prems(3) p by simp
  have s1: "?s1 = fst (handle_audio d now m (handle_transcription m s))"
    using nt by (rule onmessage_no_tool_call)
  have e1: "expression ?s1 = expression s @ fragment_text m"
    and c1: "currentInputRef ?s1 = expression ?s1"
    and f1: "\<not> isResultFinalRef ?s1"
    using handle_transcription_appends [OF Cons.prems(1,2), of m]
    by (simp_all add: s1 handle_audio_keeps_formula)
  have rest: "\<forall>(now, m) \<in> set ms. toolCall m = None" using Cons.prems(3) by simp
  have "expression (fst (run_messages d ms ?s1)) =
          expression ?s1 @ concat (map (\<lambda>p. fragment_text (snd p)) ms)"
    using Cons.IH [OF f1 c1 rest] .
  then show ?case by (simp add: p run_messages_Cons_state e1 del: run_messages.simps)
qed

text \<open>
  Claim C3. From a state with no finalized result (\<open>isResultFinalRef\<close> false) and an empty
  formula, after any sequence of messages that carry transcription fragments and no tool
  call, handled in delivery order, the displayed expression is the concatenation of the
  fragments' texts in that order.
\<close>

theorem formula_is_concatenation:
  assumes "\<not> isResultFinalRef s" and "currentInputRef s = []" and "expression s = []"
    and "\<forall>(now, m) \<in> set ms. toolCall m = None"
  shows "expression (fst (run_messages d ms s)) = concat (map (\<lambda>p. fragment_text (snd p)) ms)"
  using run_messages_appends [of s ms d] assms by simp

theorem formula_is_concatenation_witness:
  "expression (fst (run_messages example_decoder
      [(0, transcription_message ''3''), (1, transcription_message ''+''),
       (2, audio_message ''UklGRg==''), (3, transcription_message ''5'')] connected_state)) = ''3+5''"
proof -
  have h1: "\<not> isResultFinalRef connected_state"
    and h2: "currentInputRef connected_state = []"
    and h3: "expression connected_state = []"
    by (simp_all add: connected_state_eq)
  have h4: "\<forall>(now, m) \<in> set [(0::int, transcription_message ''3''), (1, transcription_message ''+''),
       (2, audio_message ''UklGRg==''), (3, transcription_message ''5'')]. toolCall m = None"
    by (simp add: transcription_message_def audio_message_def)
  from formula_is_concatenation [OF h1 h2 h3 h4, of example_decoder]
  show ?thesis
    by (simp add: fragment_text_def transcription_message_def audio_message_def)
qed

lemma handle_transcription_after_result:
  assumes "isResultFinalRef s" and "inputTranscription m = Some inputTr"
    and "tr_text inputTr = Some t" and "t \<noteq> []"
  shows "handle_transcription m s = append_fragment t (clear_formula s)"
  using assms by (simp add: handle_transcription_def)

text \<open>Whatever the state, a fragment whose text is empty changes nothing.\<close>

lemma empty_fragment_is_skipped:
  assumes "inputTranscription m = Some inputTr" and "tr_text inputTr = Some []"
  shows "handle_transcription m s = s"
  using assms by (simp add: handle_transcription_def)

text \<open>
  Claim C4, as the handler has it. The handler skips a fragment whose text is empty: after
  the result \<open>8\<close> of \<open>3+5\<close>, an empty fragment leaves the flag set and the expression
  \<open>3+5\<close> on display.
\<close>

theorem empty_fragment_after_result_counterexample:
  "isResultFinalRef finalized_state
   \<and> expression finalized_state = ''3+5''
   \<and> isResultFinalRef (fst (onmessage example_decoder 2 (transcription_message []) finalized_state))
   \<and> expression (fst (onmessage example_decoder 2 (transcription_message []) finalized_state)) = ''3+5''"
  by (simp add: finalized_state_eq onmessage_def handle_transcription_def handle_tool_call_def
      handle_audio_def transcription_message_def)

text \<open>
  Claim C4, amended. For every transcription fragment with a non-empty text that arrives
  while \<open>isResultFinalRef\<close> is true, the accumulator first clears \<open>currentInputRef\<close>
  and the displayed expression and sets the flag to false, and only then appends the
  fragment: buffer and displayed expression are the fragment's text and the flag is false.
  After the result of \<open>3+5\<close>, the fragment \<open>7\<close> shows \<open>7\<close>.
\<close>

theorem fragment_after_result_restarts_formula:
  assumes "isResultFinalRef s" and "inputTranscription m = Some inputTr"
    and "tr_text inputTr = Some t" and "t \<noteq> []"
  shows "handle_transcription m s = append_fragment t (clear_formula s)
       \<and> currentInputRef (clear_formula s) = []
       \<and> expression (clear_formula s) = []
       \<and> \<not> isResultFinalRef (clear_formula s)
       \<and> currentInputRef (handle_transcription m s) = t
       \<and> expression (handle_transcription m s) = t
       \<and> \<not> isResultFinalRef (handle_transcription m s)
       \<and> expression (fst (onmessage d now (m\<lparr> toolCall := None \<rparr>) s)) = t"
proof -
  have h: "handle_transcription m s = append_fragment t (clear_formula s)"
    using assms by (rule handle_transcription_after_result)
  have h': "handle_transcription (m\<lparr> toolCall := None \<rparr>) s = append_fragment t (clear_formula s)"
    using assms by (simp add: handle_transcription_def)
  show ?thesis
    by (simp add: h h' onmessage_no_tool_call handle_audio_keeps_formula
        append_fragment_def clear_formula_def)
qed

theorem fragment_after_result_restarts_formula_witness:
  "isResultFinalRef finalized_state
   \<and> expression finalized_state = ''3+5''
   \<and> expression (handle_transcription (transcription_message ''7'') finalized_state) = ''7''
   \<and> \<not> isResultFinalRef (handle_transcription (transcription_message ''7'') finalized_state)
   \<and> expression (fst (onmessage example_decoder 2 (transcription_message ''7'') finalized_state)) = ''7''"
proof -
  have h1: "isResultFinalRef finalized_state" by (simp add: finalized_state_eq)
  have h2: "inputTranscription (transcription_message ''7'') = Some \<lparr> tr_text = Some ''7'' \<rparr>"
    by (simp add: transcription_message_def)
  have h3: "tr_text \<lparr> tr_text = Some ''7'' \<rparr> = Some ''7''" by simp
  have h4: "''7'' \<noteq> []" by simp
  have m: "(transcription_message ''7'')\<lparr> toolCall := None \<rparr> = transcription_message ''7''"
    by (simp add: transcription_message_def)
  from fragment_after_result_restarts_formula [OF h1 h2 h3 h4, of example_decoder 2]
  show ?thesis
    by (simp add: m finalized_state_eq transcription_message_def handle_transcription_def
        append_fragment_def clear_formula_def onmessage_def handle_tool_call_def handle_audio_def)
qed

section \<open>Tool dispatch: results and history\<close>

lemma handle_function_call_displayResult:
  assumes "fc_name fc = ''displayResult''"
  shows "fst (handle_function_call fc s) =
     s\<lparr> displayText := fc_args fc ''text'',
        historyUpdates := historyUpdates s @ [PrependResult (fc_args fc ''text'')],
        isResultFinalRef := True \<rparr>"
  using assms by (simp add: handle_function_call_def Let_def)

lemma onmessage_single_call:
  "fst (onmessage d now (tool_message [fc]) s) = fst (handle_function_call fc s)"
  "fst (snd (onmessage d now (tool_message [fc]) s)) =
     [ConsoleLog ''Tool Call:'', ThenSendToolResponse [snd (handle_function_call fc s)]]"
  "snd (snd (onmessage d now (tool_message [fc]) s)) = Normal"
  by (simp_all add: onmessage_def tool_message_def handle_transcription_def handle_tool_call_def
      handle_audio_def split: prod.splits)

lemma apply_history_updates_append:
  "apply_history_updates cur (us @ vs) prev =
     apply_history_updates cur vs (apply_history_updates cur us prev)"
  by (induction us arbitrary: prev) simp_all

lemma render_shown:
  "displayText s = Some shown \<Longrightarrow>
     render s =
       (s\<lparr> history := apply_history_updates (currentInputRef s) (historyUpdates s) (history s),
           historyUpdates := [] \<rparr>, [], Normal)"
  by (simp add: render_def)

lemma render_undefined:
  "displayText s = None \<Longrightarrow> render s = (fst (cleanup s), snd (cleanup s), Abrupt)"
  by (simp add: render_def split: prod.splits)

text \<open>
  The history line is built when the update is applied: when the fragment \<open>7\<close> of the next
  formula is handled between the call \<open>displayResult("8")\<close> and the render, the line
  names the new buffer.
\<close>

lemma late_render_reads_new_buffer:
  "history (fst (render (fst (onmessage example_decoder 2 (transcription_message ''7'')
     (fst (onmessage example_decoder 1 (tool_message [displayResult_call ''c1'' ''8''])
        formula_state)))))) = [''7 = 8'']"
  by (simp add: formula_state_eq onmessage_def handle_transcription_def handle_tool_call_def
      handle_function_call_def handle_audio_def tool_message_def transcription_message_def
      displayResult_call_def template_string_def render_def append_fragment_def
      clear_formula_def Let_def)

text \<open>
  Claim C5, as the component has it. The history holds plain strings: after the formula
  \<open>3+5\<close>, the call \<open>displayResult("8")\<close> and the render that follows it put the one
  string \<open>3+5 = 8\<close> at the head of the history, which is no object with the fields
  \<open>expression\<close>, \<open>result\<close> and \<open>timestamp\<close>.
\<close>

theorem history_entry_counterexample:
  "currentInputRef formula_state = ''3+5''
   \<and> history (fst (render (fst (onmessage example_decoder 1
        (tool_message [displayResult_call ''c1'' ''8'']) formula_state)))) = [''3+5 = 8'']
   \<and> \<not> is_CalculationLog (JString (hd (history (fst (render (fst (onmessage example_decoder 1
        (tool_message [displayResult_call ''c1'' ''8'']) formula_state)))))))"
  unfolding finalized_state_def [symmetric]
  by (simp add: finalized_state_eq formula_state_eq is_CalculationLog_def)

text \<open>
  Claim C5, amended. For every \<open>displayResult(text)\<close> tool call, the handler sets the
  displayed result to \<open>text\<close>, sets \<open>isResultFinalRef\<close> to true, leaves the formula as it
  is and queues one history update; nothing is inserted by the handler itself. When the
  component renders right after the handler, that update puts the single string made of
  the transcription buffer, \<open> = \<close> and \<open>text\<close> at the head of the history, which is kept
  to its first 10 entries. No record and no time stamp is stored: after
  \<open>displayResult("8")\<close> with the formula \<open>3+5\<close>, the head of the history is the string
  \<open>3+5 = 8\<close>.
\<close>

theorem displayResult_logs_line:
  assumes "fc_name fc = ''displayResult''" and "fc_args fc ''text'' = Some t"
  shows "displayText (fst (handle_function_call fc s)) = Some t
       \<and> isResultFinalRef (fst (handle_function_call fc s))
       \<and> expression (fst (handle_function_call fc s)) = expression s
       \<and> currentInputRef (fst (handle_function_call fc s)) = currentInputRef s
       \<and> history (fst (handle_function_call fc s)) = history s
       \<and> historyUpdates (fst (handle_function_call fc s)) =
           historyUpdates s @ [PrependResult (Some t)]
       \<and> fst (onmessage d now (tool_message [fc]) s) = fst (handle_function_call fc s)
       \<and> snd (snd (render (fst (handle_function_call fc s)))) = Normal
       \<and> displayText (fst (render (fst (handle_function_call fc s)))) = Some t
       \<and> isResultFinalRef (fst (render (fst (handle_function_call fc s))))
       \<and> history (fst (render (fst (handle_function_call fc s)))) =
           take 10 ((currentInputRef s @ '' = '' @ t)
             # apply_history_updates (currentInputRef s) (historyUpdates s) (history s))
       \<and> hd (history (fst (render (fst (handle_function_call fc s))))) =
           currentInputRef s @ '' = '' @ t"
proof -
  let ?s1 = "fst (handle_function_call fc s)"
  have s1: "?s1 = s\<lparr> displayText := Some t,
        historyUpdates := historyUpdates s @ [PrependResult (Some t)],
        isResultFinalRef := True \<rparr>"
    using assms by (simp add: handle_function_call_displayResult)
  have shown: "displayText ?s1 = Some t" by (simp add: s1)
  have r: "render ?s1 =
      (?s1\<lparr> history := apply_history_updates (currentInputRef ?s1) (historyUpdates ?s1) (history ?s1),
           historyUpdates := [] \<rparr>, [], Normal)"
    using shown by (rule render_shown)
  have h: "apply_history_updates (currentInputRef ?s1) (historyUpdates ?s1) (history ?s1) =
      take 10 ((currentInputRef s @ '' = '' @ t)
        # apply_history_updates (currentInputRef s) (historyUpdates s) (history s))"
    by (simp add: s1 apply_history_updates_append template_string_def)
  show ?thesis
    by (simp add: r h onmessage_single_call) (simp add: s1)
qed

theorem displayResult_logs_line_witness:
  "displayText (fst (handle_function_call (displayResult_call ''c1'' ''8'') formula_state)) = Some ''8''
   \<and> isResultFinalRef (fst (handle_function_call (displayResult_call ''c1'' ''8'') formula_state))
   \<and> expression (fst (handle_function_call (displayResult_call ''c1'' ''8'') formula_state)) =
       ''3+5''
   \<and> history (fst (handle_function_call (displayResult_call ''c1'' ''8'') formula_state)) = []
   \<and> history (fst (render (fst (handle_function_call (displayResult_call ''c1'' ''8'')
        formula_state)))) = [''3+5 = 8'']"
proof -
  have h1: "fc_name (displayResult_call ''c1'' ''8'') = ''displayResult''"
    by (simp add: displayResult_call_def)
  have h2: "fc_args (displayResult_call ''c1'' ''8'') ''text'' = Some ''8''"
    by (simp add: displayResult_call_def)
  from displayResult_logs_line [OF h1 h2, of formula_state example_decoder 1]
  show ?thesis
    by (simp add: formula_state_eq)
qed

text \<open>
  Claim C10. A \<open>displayResult\<close> call whose argument map has no \<open>text\<close> is taken by the
  handler like any other: it is acknowledged with its id, its name and the marker \<open>ok\<close>,
  the handler ends normally, the displayed result is set to the absent value
  (\<open>undefined\<close>), a history update is queued and \<open>isResultFinalRef\<close> is set. The
  component does not survive it: the render that follows reads \<open>displayText.length\<close> and
  throws, so the tree is unmounted and \<open>cleanup\<close> runs; the history entry is never
  inserted, \<open>isResultFinalRef\<close> is false again and the connection is torn down.
\<close>

theorem textless_displayResult_stops_render:
  assumes "fc_name fc = ''displayResult''" and "fc_args fc ''text'' = None"
  shows "snd (handle_function_call fc s) =
           \<lparr> fr_id = fc_id fc, fr_name = fc_name fc, fr_result = ''ok'' \<rparr>
       \<and> snd (snd (onmessage d now (tool_message [fc]) s)) = Normal
       \<and> tool_responses (fst (snd (onmessage d now (tool_message [fc]) s))) =
           [[\<lparr> fr_id = fc_id fc, fr_name = fc_name fc, fr_result = ''ok'' \<rparr>]]
       \<and> displayText (fst (handle_function_call fc s)) = None
       \<and> isResultFinalRef (fst (handle_function_call fc s))
       \<and> historyUpdates (fst (handle_function_call fc s)) =
           historyUpdates s @ [PrependResult None]
       \<and> render (fst (handle_function_call fc s)) =
           (fst (cleanup (fst (handle_function_call fc s))),
            snd (cleanup (fst (handle_function_call fc s))), Abrupt)
       \<and> history (fst (render (fst (handle_function_call fc s)))) = history s
       \<and> \<not> isResultFinalRef (fst (render (fst (handle_function_call fc s))))
       \<and> connectionState (fst (render (fst (handle_function_call fc s)))) = DISCONNECTED
       \<and> sessionRef (fst (render (fst (handle_function_call fc s)))) = None"
proof -
  let ?s1 = "fst (handle_function_call fc s)"
  have s1: "?s1 = s\<lparr> displayText := None,
        historyUpdates := historyUpdates s @ [PrependResult None],
        isResultFinalRef := True \<rparr>"
    using assms by (simp add: handle_function_call_displayResult)
  have gone: "displayText ?s1 = None" by (simp add: s1)
  have r: "render ?s1 = (fst (cleanup ?s1), snd (cleanup ?s1), Abrupt)"
    using gone by (rule render_undefined)
  have ack: "snd (handle_function_call fc s) =
      \<lparr> fr_id = fc_id fc, fr_name = fc_name fc, fr_result = ''ok'' \<rparr>"
    by (simp add: handle_function_call_ack acknowledgement_def)
  show ?thesis
    by (simp add: r ack onmessage_single_call) (simp add: s1 cleanup_def)
qed

theorem textless_displayResult_stops_render_witness:
  "tool_responses (fst (snd (onmessage example_decoder 2 (tool_message [textless_call])
      finalized_state))) =
     [[\<lparr> fr_id = ''c9'', fr_name = ''displayResult'', fr_result = ''ok'' \<rparr>]]
   \<and> displayText (fst (onmessage example_decoder 2 (tool_message [textless_call])
        finalized_state)) = None
   \<and> isResultFinalRef (fst (onmessage example_decoder 2 (tool_message [textless_call])
        finalized_state))
   \<and> snd (render (fst (onmessage example_decoder 2 (tool_message [textless_call])
        finalized_state))) =
       ([StopTracks 3, CloseContext 1, CloseContext 2, ThenCloseSession 5], Abrupt)
   \<and> history (fst (render (fst (onmessage example_decoder 2 (tool_message [textless_call])
        finalized_state)))) = [''3+5 = 8'']
   \<and> \<not> isResultFinalRef (fst (render (fst (onmessage example_decoder 2
        (tool_message [textless_call]) finalized_state))))
   \<and> connectionState (fst (render (fst (onmessage example_decoder 2
        (tool_message [textless_call]) finalized_state)))) = DISCONNECTED"
proof -
  have h1: "fc_name textless_call = ''displayResult''"
    and h2: "fc_args textless_call ''text'' = None"
    by (simp_all add: textless_call_def)
  have call: "handle_function_call textless_call finalized_state =
      (\<lparr> connectionState = CONNECTED, displayText = None, expression = ''3+5'',
         history = [''3+5 = 8''], analyser = Some 4, historyUpdates = [PrependResult None],
         inputAudioContextRef = Some 1, outputAudioContextRef = Some 2, streamRef = Some 3,
         sessionRef = Some 5, nextStartTimeRef = 0, sourcesRef = [],
         currentInputRef = ''3+5'', isResultFinalRef = True \<rparr>,
       \<lparr> fr_id = ''c9'', fr_name = ''displayResult'', fr_result = ''ok'' \<rparr>)"
    by (simp add: handle_function_call_def textless_call_def finalized_state_eq Let_def)
  from textless_displayResult_stops_render [OF h1 h2, of finalized_state example_decoder 2]
  show ?thesis
    by (simp add: onmessage_single_call call render_def cleanup_def)
qed

subsection \<open>The history never grows past ten entries\<close>

lemma handle_function_call_history: "history (fst (handle_function_call fc s)) = history s"
  by (simp add: handle_function_call_def Let_def)

lemma dispatch_calls_history: "history (fst (dispatch_calls fcs s acc)) = history s"
proof (induction fcs arbitrary: s acc)
  case Nil
  show ?case by simp
next
  case (Cons fc fcs)
  obtain s' r where h: "handle_function_call fc s = (s', r)"
    by (cases "handle_function_call fc s")
  then have "history s' = history s"
    using handle_function_call_history [of fc s] by simp
  with Cons.IH [of s' "acc @ [r]"] h show ?case by simp
qed

lemma handle_transcription_history: "history (handle_transcription m s) = history s"
  by (simp add: handle_transcription_def append_fragment_def clear_formula_def
      split: option.splits)

lemma handle_audio_history: "history (fst (handle_audio d now m s)) = history s"
  by (simp add: handle_audio_def Let_def split: option.splits)

lemma onmessage_history: "history (fst (onmessage d now m s)) = history s"
  by (simp add: onmessage_state handle_audio_history handle_tool_call_state
      dispatch_calls_history handle_transcription_history split: option.splits)

lemma apply_history_update_bounded:
  "length prev \<le> 10 \<Longrightarrow> length (apply_history_update cur u prev) \<le> 10"
  by (cases u) simp_all

lemma apply_history_updates_bounded:
  "length prev \<le> 10 \<Longrightarrow> length (apply_history_updates cur us prev) \<le> 10"
  by (induction us arbitrary: prev) (simp_all add: apply_history_update_bounded)

lemma render_history:
  "length (history s) \<le> 10 \<Longrightarrow> length (history (fst (render s))) \<le> 10"
  by (simp add: render_def cleanup_def apply_history_updates_bounded split: option.splits)

lemma step_history:
  "length (history s) \<le> 10 \<Longrightarrow> length (history (step d ev s)) \<le> 10"
  by (cases ev)
    (simp_all add: onmessage_history render_history toggleConnection_def cleanup_def connect_def
      connect_resumed_def onopen_def onclose_def onerror_def onended_def handleManualReset_def
      Let_def split: option.splits)

lemma run_events_history:
  "length (history s) \<le> 10 \<Longrightarrow> length (history (run_events d evs s)) \<le> 10"
  by (induction evs arbitrary: s) (simp_all add: step_history)

lemma ten_results_state:
  "history (run_events example_decoder ten_results initial_state) =
     ['' = 20'', '' = 18'', '' = 16'', '' = 14'', '' = 12'', '' = 10'', '' = 8'', '' = 6'',
      '' = 4'', '' = 2'']"
  "currentInputRef (run_events example_decoder ten_results initial_state) = []"
  "historyUpdates (run_events example_decoder ten_results initial_state) = []"
  by (simp_all add: ten_results_def initial_state_def onmessage_single_call
      handle_function_call_displayResult displayResult_call_def template_string_def render_def)

text \<open>
  Claim C6. In every state the component reaches from its initial state, by any sequence
  of events (renders included), the history holds at most 10 entries. A \<open>displayResult\<close>
  call queues the updater of its branch, and that updater, applied to any history while
  the buffer holds any text, inserts its entry at the head and keeps the first 10
  entries: the result holds at most 10 entries, and when the history held 10 before, its
  oldest (last) entry is dropped. So it is for the render that follows a call with a
  \<open>text\<close>.
\<close>

theorem history_bounded:
  assumes "fc_name fc = ''displayResult''"
  shows "length (history (run_events d evs initial_state)) \<le> 10
       \<and> historyUpdates (fst (handle_function_call fc s)) =
           historyUpdates s @ [PrependResult (fc_args fc ''text'')]
       \<and> length (apply_history_update cur (PrependResult (fc_args fc ''text'')) prev) \<le> 10
       \<and> apply_history_update cur (PrependResult (fc_args fc ''text'')) prev =
           take 10 ((cur @ '' = '' @ template_string (fc_args fc ''text'')) # prev)
       \<and> (length prev = 10 \<longrightarrow>
            apply_history_update cur (PrependResult (fc_args fc ''text'')) prev =
              (cur @ '' = '' @ template_string (fc_args fc ''text'')) # butlast prev)
       \<and> (fc_args fc ''text'' = Some t \<longrightarrow>
            history (fst (render (fst (handle_function_call fc s)))) =
              take 10 ((currentInputRef s @ '' = '' @ t)
                # apply_history_updates (currentInputRef s) (historyUpdates s) (history s)))
       \<and> (fc_args fc ''text'' = Some t \<and> historyUpdates s = [] \<and> length (history s) = 10 \<longrightarrow>
            history (fst (render (fst (handle_function_call fc s)))) =
              (currentInputRef s @ '' = '' @ t) # butlast (history s))"
proof -
  have reach: "length (history (run_events d evs initial_state)) \<le> 10"
    by (rule run_events_history) (simp add: initial_state_def)
  have evict: "\<And>xs :: string list. length xs = 10 \<Longrightarrow> take 9 xs = butlast xs"
    by (simp add: butlast_conv_take)
  have s1: "fst (handle_function_call fc s) =
      s\<lparr> displayText := fc_args fc ''text'',
         historyUpdates := historyUpdates s @ [PrependResult (fc_args fc ''text'')],
         isResultFinalRef := True \<rparr>"
    using assms by (rule handle_function_call_displayResult)
  have rendered: "fc_args fc ''text'' = Some t \<Longrightarrow>
      history (fst (render (fst (handle_function_call fc s)))) =
        take 10 ((currentInputRef s @ '' = '' @ t)
          # apply_history_updates (currentInputRef s) (historyUpdates s) (history s))"
    by (simp add: s1 render_def apply_history_updates_append template_string_def)
  have full: "fc_args fc ''text'' = Some t \<and> historyUpdates s = [] \<and> length (history s) = 10 \<longrightarrow>
      history (fst (render (fst (handle_function_call fc s)))) =
        (currentInputRef s @ '' = '' @ t) # butlast (history s)"
    using rendered by (simp add: evict)
  have queued: "historyUpdates (fst (handle_function_call fc s)) =
      historyUpdates s @ [PrependResult (fc_args fc ''text'')]"
    by (simp add: s1)
  have updater: "length (apply_history_update cur (PrependResult (fc_args fc ''text'')) prev) \<le> 10
      \<and> apply_history_update cur (PrependResult (fc_args fc ''text'')) prev =
          take 10 ((cur @ '' = '' @ template_string (fc_args fc ''text'')) # prev)
      \<and> (length prev = 10 \<longrightarrow>
           apply_history_update cur (PrependResult (fc_args fc ''text'')) prev =
             (cur @ '' = '' @ template_string (fc_args fc ''text'')) # butlast prev)"
    by (simp add: evict)
  show ?thesis
    using reach queued updater rendered full by blast
qed

theorem history_bounded_witness:
  "length (history (run_events example_decoder ten_results initial_state)) = 10
   \<and> history (fst (render (fst (handle_function_call (displayResult_call ''c'' ''22'')
        (run_events example_decoder ten_results initial_state))))) =
      ['' = 22'', '' = 20'', '' = 18'', '' = 16'', '' = 14'', '' = 12'', '' = 10'', '' = 8'',
       '' = 6'', '' = 4'']"
proof -
  have h: "fc_name (displayResult_call ''c'' ''22'') = ''displayResult''"
    by (simp add: displayResult_call_def)
  have a: "fc_args (displayResult_call ''c'' ''22'') ''text'' = Some ''22''"
    by (simp add: displayResult_call_def)
  from history_bounded [OF h, of example_decoder ten_results
      "run_events example_decoder ten_results initial_state" _ _ "''22''"]
  show ?thesis
    by (simp add: ten_results_state a)
qed

section \<open>Teardown\<close>

text \<open>
  What \<open>cleanup\<close> leaves when it returns, from any state: the connection state
  \<open>DISCONNECTED\<close>, no playing source, an empty transcription buffer, the result flag
  false and every device and transport reference null. A second \<open>cleanup\<close> right after
  the first leaves the same state and releases nothing again.
\<close>

lemma cleanup_releases_everything:
  "connectionState (fst (cleanup s)) = DISCONNECTED
   \<and> sourcesRef (fst (cleanup s)) = []
   \<and> currentInputRef (fst (cleanup s)) = []
   \<and> \<not> isResultFinalRef (fst (cleanup s))
   \<and> streamRef (fst (cleanup s)) = None
   \<and> inputAudioContextRef (fst (cleanup s)) = None
   \<and> outputAudioContextRef (fst (cleanup s)) = None
   \<and> sessionRef (fst (cleanup s)) = None
   \<and> fst (cleanup (fst (cleanup s))) = fst (cleanup s)
   \<and> snd (cleanup (fst (cleanup s))) = []"
  by (simp add: cleanup_def)

text \<open>
  Claim C7. The teardown is not safe while \<open>connect\<close> is pending. \<open>connect\<close> sets
  \<open>CONNECTING\<close> and awaits the microphone; there the toggle runs \<open>cleanup\<close>, which
  leaves \<open>DISCONNECTED\<close> with every reference null. Nothing in the continuation of
  \<open>connect\<close> looks at the teardown: once the microphone is granted it stores the stream
  and the session promise, and when the session opens the connection state is
  \<open>CONNECTED\<close>, with the stream and the session held and both audio contexts gone.
\<close>

theorem teardown_lost_by_pending_connect:
  assumes "apiKey = Some k" and "k \<noteq> []"
  shows "connectionState (fst (connect apiKey inputCtx outputCtx s)) = CONNECTING
       \<and> toggleConnection apiKey' inputCtx' outputCtx' (fst (connect apiKey inputCtx outputCtx s)) =
           cleanup (fst (connect apiKey inputCtx outputCtx s))
       \<and> connectionState (fst (cleanup (fst (connect apiKey inputCtx outputCtx s)))) = DISCONNECTED
       \<and> streamRef (fst (cleanup (fst (connect apiKey inputCtx outputCtx s)))) = None
       \<and> sessionRef (fst (cleanup (fst (connect apiKey inputCtx outputCtx s)))) = None
       \<and> connectionState (fst (connect_resumed (Some stream) analyserNode sessionPromise
            (fst (cleanup (fst (connect apiKey inputCtx outputCtx s)))))) = DISCONNECTED
       \<and> streamRef (fst (connect_resumed (Some stream) analyserNode sessionPromise
            (fst (cleanup (fst (connect apiKey inputCtx outputCtx s)))))) = Some stream
       \<and> sessionRef (fst (connect_resumed (Some stream) analyserNode sessionPromise
            (fst (cleanup (fst (connect apiKey inputCtx outputCtx s)))))) = Some sessionPromise
       \<and> connectionState (fst (onopen (fst (connect_resumed (Some stream) analyserNode sessionPromise
            (fst (cleanup (fst (connect apiKey inputCtx outputCtx s)))))))) = CONNECTED
       \<and> streamRef (fst (onopen (fst (connect_resumed (Some stream) analyserNode sessionPromise
            (fst (cleanup (fst (connect apiKey inputCtx outputCtx s)))))))) = Some stream
       \<and> sessionRef (fst (onopen (fst (connect_resumed (Some stream) analyserNode sessionPromise
            (fst (cleanup (fst (connect apiKey inputCtx outputCtx s)))))))) = Some sessionPromise
       \<and> outputAudioContextRef (fst (onopen (fst (connect_resumed (Some stream) analyserNode
            sessionPromise (fst (cleanup (fst (connect apiKey inputCtx outputCtx s)))))))) = None"
  using assms
  by (simp add: connect_def cleanup_def connect_resumed_def onopen_def toggleConnection_def)

theorem teardown_lost_by_pending_connect_witness:
  "connectionState (run_events example_decoder [ToggleConnection (Some ''key'') 1 2] initial_state) =
     CONNECTING
   \<and> connectionState (run_events example_decoder pending_connect_events initial_state) =
       DISCONNECTED
   \<and> streamRef (run_events example_decoder pending_connect_events initial_state) = None
   \<and> connectionState (run_events example_decoder resumed_connect_events initial_state) =
       CONNECTED
   \<and> streamRef (run_events example_decoder resumed_connect_events initial_state) = Some 3
   \<and> sessionRef (run_events example_decoder resumed_connect_events initial_state) = Some 5
   \<and> outputAudioContextRef (run_events example_decoder resumed_connect_events initial_state) =
       None"
proof -
  have h1: "Some ''key'' = Some ''key''" and h2: "''key'' \<noteq> []" by simp_all
  from teardown_lost_by_pending_connect [OF h1 h2, of 1 2 "initial_state :: int app_state"
      "Some ''key''" 6 7 3 4 5]
  show ?thesis
    by (simp add: resumed_connect_events_def pending_connect_events_def initial_state_def
        toggleConnection_def connect_def cleanup_def connect_resumed_def onopen_def)
qed

section \<open>A fragment that fails to decode\<close>

text \<open>
  Claim C8, as the handler has it. The cursor is raised to the clock before the decoder
  runs, and nothing catches or logs a decoder that throws: with the cursor at 0 and the
  clock at 5, a fragment that does not decode leaves the cursor at 5, makes no console
  call, and ends the handler abruptly.
\<close>

theorem failed_decode_counterexample:
  "example_decoder ''!!!!'' = None
   \<and> nextStartTimeRef connected_state = 0
   \<and> nextStartTimeRef (fst (onmessage example_decoder 5 (audio_message ''!!!!'') connected_state)) = 5
   \<and> fst (snd (onmessage example_decoder 5 (audio_message ''!!!!'') connected_state)) = []
   \<and> snd (snd (onmessage example_decoder 5 (audio_message ''!!!!'') connected_state)) = Abrupt"
  by (simp add: connected_state_eq onmessage_def handle_transcription_def handle_tool_call_def
      handle_audio_def audio_message_def example_decoder_def Let_def)

text \<open>
  Claim C8, amended. For every inbound audio fragment whose decoding fails, the fragment is
  dropped: no buffer is started and no source joins the set; the cursor is not advanced by
  any duration, it is raised to the maximum of itself and the device clock, so it is
  unchanged when it is not behind the clock; the handler ends abruptly with the decoder's
  error, which it neither catches nor logs (its only effects are those of the tool part);
  connection state, session and output context are untouched, and the next fragment is
  handled as usual: if it decodes, its buffer starts at the raised cursor or its own clock
  reading, whichever is later.
\<close>

theorem failed_decode_dropped:
  assumes "inlineData m = Some base64Audio" and "base64Audio \<noteq> []"
    and "outputAudioContextRef s = Some ctx"
    and "decodeAudioData base64Audio = None"
    and "inlineData m2 = Some base64Audio2" and "base64Audio2 \<noteq> []"
    and "decodeAudioData base64Audio2 = Some duration2"
  shows "onmessage decodeAudioData now m s =
           ((fst (handle_tool_call m (handle_transcription m s)))
              \<lparr> nextStartTimeRef := max (nextStartTimeRef s) now \<rparr>,
            snd (handle_tool_call m (handle_transcription m s)),
            Abrupt)
       \<and> started (fst (snd (onmessage decodeAudioData now m s))) = []
       \<and> sourcesRef (fst (onmessage decodeAudioData now m s)) = sourcesRef s
       \<and> nextStartTimeRef (fst (onmessage decodeAudioData now m s)) = max (nextStartTimeRef s) now
       \<and> (now \<le> nextStartTimeRef s \<longrightarrow>
            nextStartTimeRef (fst (onmessage decodeAudioData now m s)) = nextStartTimeRef s)
       \<and> connectionState (fst (onmessage decodeAudioData now m s)) = connectionState s
       \<and> sessionRef (fst (onmessage decodeAudioData now m s)) = sessionRef s
       \<and> outputAudioContextRef (fst (onmessage decodeAudioData now m s)) = Some ctx
       \<and> started (snd (run_messages decodeAudioData [(now, m), (now2, m2)] s)) =
           [\<lparr> node_duration = duration2,
              node_start = max (max (nextStartTimeRef s) now) now2 \<rparr>]"
proof -
  let ?s1 = "fst (handle_tool_call m (handle_transcription m s))"
  let ?s2 = "fst (onmessage decodeAudioData now m s)"
  have ctx: "outputAudioContextRef ?s1 = Some ctx"
    using assms(3) by (simp add: handle_tool_call_frame handle_transcription_frame)
  have nx: "nextStartTimeRef ?s1 = nextStartTimeRef s"
    by (simp add: handle_tool_call_frame handle_transcription_frame)
  note a = handle_audio_failed [where d = decodeAudioData, OF assms(1,2) ctx assms(4), of now]
  have whole: "onmessage decodeAudioData now m s =
      (?s1\<lparr> nextStartTimeRef := max (nextStartTimeRef s) now \<rparr>,
       snd (handle_tool_call m (handle_transcription m s)), Abrupt)"
    by (simp add: prod_eq_iff onmessage_state onmessage_effects onmessage_outcome a nx)
  have s2: "?s2 = ?s1\<lparr> nextStartTimeRef := max (nextStartTimeRef s) now \<rparr>"
    by (simp add: whole)
  have ctx2: "outputAudioContextRef ?s2 = Some ctx" by (simp add: s2 ctx)
  have nx2: "nextStartTimeRef ?s2 = max (nextStartTimeRef s) now" by (simp add: s2)
  have none: "started (fst (snd (onmessage decodeAudioData now m s))) = []"
    by (simp add: whole handle_tool_call_starts_nothing)
  let ?s3 = "fst (handle_tool_call m2 (handle_transcription m2 ?s2))"
  have ctx3: "outputAudioContextRef ?s3 = Some ctx"
    using ctx2 by (simp add: handle_tool_call_frame handle_transcription_frame)
  have nx3: "nextStartTimeRef ?s3 = max (nextStartTimeRef s) now"
    using nx2 by (simp add: handle_tool_call_frame handle_transcription_frame)
  note b = handle_audio_scheduled [where d = decodeAudioData, OF assms(5,6) ctx3 assms(7), of now2]
  have next_one: "started (fst (snd (onmessage decodeAudioData now2 m2 ?s2))) =
      [\<lparr> node_duration = duration2, node_start = max (max (nextStartTimeRef s) now) now2 \<rparr>]"
    by (simp add: onmessage_effects started_append handle_tool_call_starts_nothing b nx3)
  have run: "started (snd (run_messages decodeAudioData [(now, m), (now2, m2)] s)) =
      [\<lparr> node_duration = duration2, node_start = max (max (nextStartTimeRef s) now) now2 \<rparr>]"
    by (simp only: run_messages_Cons_effects started_append none next_one) simp
  have frame: "sourcesRef ?s2 = sourcesRef s" "connectionState ?s2 = connectionState s"
    "sessionRef ?s2 = sessionRef s"
    by (simp_all add: s2 handle_tool_call_frame handle_transcription_frame)
  have keep: "now \<le> nextStartTimeRef s \<longrightarrow> nextStartTimeRef ?s2 = nextStartTimeRef s"
    by (simp add: nx2 max_def)
  show ?thesis
    using whole none frame nx2 keep ctx2 run by blast
qed

theorem failed_decode_dropped_witness:
  "onmessage example_decoder 5 (audio_message ''!!!!'') connected_state =
     (connected_state\<lparr> nextStartTimeRef := 5 \<rparr>, [], Abrupt)
   \<and> started (snd (run_messages example_decoder
        [(5, audio_message ''!!!!''), (6, audio_message ''UklGRg=='')] connected_state)) =
      [\<lparr> node_duration = 3, node_start = 6 \<rparr>]"
proof -
  have h1: "inlineData (audio_message ''!!!!'') = Some ''!!!!''"
    and h5: "inlineData (audio_message ''UklGRg=='') = Some ''UklGRg==''"
    by (simp_all add: audio_message_def)
  have h2: "''!!!!'' \<noteq> []" and h6: "''UklGRg=='' \<noteq> []" by simp_all
  have h3: "outputAudioContextRef connected_state = Some 2"
    by (simp add: connected_state_eq)
  have h4: "example_decoder ''!!!!'' = None" and h7: "example_decoder ''UklGRg=='' = Some 3"
    by (simp_all add: example_decoder_def)
  have n: "nextStartTimeRef connected_state = 0" by (simp add: connected_state_eq)
  have pre: "handle_tool_call (audio_message ''!!!!'')
      (handle_transcription (audio_message ''!!!!'') connected_state) = (connected_state, [])"
    by (simp add: handle_tool_call_def handle_transcription_def audio_message_def)
  from failed_decode_dropped [where decodeAudioData = example_decoder,
      OF h1 h2 h3 h4 h5 h6 h7, of 5 6]
  show ?thesis
    by (simp add: n pre del: run_messages.simps)
qed

section \<open>Starting a connection\<close>

text \<open>
  Claim C9, as the component has it. \<open>connect\<close> checks no state: after a failed attempt
  the state is \<open>ERROR\<close>, and there the toggle calls \<open>connect\<close>, which moves to
  \<open>CONNECTING\<close> and creates both audio contexts.
\<close>

theorem connect_from_error_counterexample:
  "connectionState error_state = ERROR
   \<and> inputAudioContextRef error_state = None
   \<and> connectionState (fst (connect (Some ''key'') 6 7 error_state)) = CONNECTING
   \<and> inputAudioContextRef (fst (connect (Some ''key'') 6 7 error_state)) = Some 6
   \<and> outputAudioContextRef (fst (connect (Some ''key'') 6 7 error_state)) = Some 7
   \<and> toggleConnection (Some ''key'') 6 7 error_state = connect (Some ''key'') 6 7 error_state"
  by (simp add: error_state_eq connect_def toggleConnection_def)

text \<open>
  Claim C9, amended. \<open>connect\<close> is only reached through \<open>toggleConnection\<close>, which calls
  it when the connection state is \<open>DISCONNECTED\<close> or \<open>ERROR\<close>. In \<open>CONNECTED\<close> and
  \<open>CONNECTING\<close> the toggle does not call \<open>connect\<close>: it runs \<open>cleanup\<close>, so no device
  or transport resource is acquired there and every reference is null afterwards.
\<close>

theorem toggle_connects_only_when_idle:
  assumes "connectionState s = CONNECTED \<or> connectionState s = CONNECTING"
    and "connectionState s' = DISCONNECTED \<or> connectionState s' = ERROR"
  shows "toggleConnection apiKey inputCtx outputCtx s = cleanup s
       \<and> inputAudioContextRef (fst (toggleConnection apiKey inputCtx outputCtx s)) = None
       \<and> outputAudioContextRef (fst (toggleConnection apiKey inputCtx outputCtx s)) = None
       \<and> streamRef (fst (toggleConnection apiKey inputCtx outputCtx s)) = None
       \<and> sessionRef (fst (toggleConnection apiKey inputCtx outputCtx s)) = None
       \<and> toggleConnection apiKey inputCtx outputCtx s' = connect apiKey inputCtx outputCtx s'"
  using assms by (auto simp add: toggleConnection_def cleanup_def)

theorem toggle_connects_only_when_idle_witness:
  "toggleConnection (Some ''key'') 6 7 connected_state = cleanup connected_state
   \<and> inputAudioContextRef (fst (toggleConnection (Some ''key'') 6 7 connected_state)) = None
   \<and> connectionState (fst (toggleConnection (Some ''key'') 6 7 connected_state)) = DISCONNECTED
   \<and> toggleConnection (Some ''key'') 6 7 initial_state =
       (initial_state\<lparr> connectionState := CONNECTING, inputAudioContextRef := Some 6,
          outputAudioContextRef := Some 7 \<rparr>, ([] :: int effect list))"
proof -
  have h1: "connectionState connected_state = CONNECTED
      \<or> connectionState connected_state = CONNECTING"
    by (simp add: connected_state_eq)
  have h2: "connectionState (initial_state :: int app_state) = DISCONNECTED
      \<or> connectionState (initial_state :: int app_state) = ERROR"
    by (simp add: initial_state_def)
  from toggle_connects_only_when_idle [OF h1 h2, where apiKey = "Some ''key''"
      and inputCtx = 6 and outputCtx = 7]
  show ?thesis
    by (simp add: connect_def cleanup_def connected_state_eq initial_state_def)
qed

end
